theory Spec2Isabelle
  imports Complex_Main
begin

section \<open>JavaScript values\<close>

text \<open>
  The metrics engine of \<^verbatim>\<open>src/pages/ViewResultsPage.tsx\<close> works on JavaScript
  numbers, strings and optional properties. Numbers are modelled as \<open>real\<close> (the
  arithmetic of the program without the rounding of IEEE doubles), counters and scenario
  ids as \<open>int\<close>, a property that may be \<^verbatim>\<open>undefined\<close> as an \<open>option\<close>.
  The operator \<^verbatim>\<open>a || b\<close> yields \<open>a\<close> when \<open>a\<close> is truthy and \<open>b\<close> otherwise;
  \<open>0\<close>, the empty string, \<^verbatim>\<open>false\<close> and \<^verbatim>\<open>undefined\<close> are falsy.
\<close>

definition truthy :: "real option \<Rightarrow> bool" where
  "truthy x = (case x of None \<Rightarrow> False | Some v \<Rightarrow> v \<noteq> 0)"

definition orCount :: "int option \<Rightarrow> int \<Rightarrow> int" where
  "orCount x d = (case x of None \<Rightarrow> d | Some v \<Rightarrow> if v \<noteq> 0 then v else d)"

definition orFlag :: "bool option \<Rightarrow> bool \<Rightarrow> bool" where
  "orFlag x d = (case x of None \<Rightarrow> d | Some v \<Rightarrow> if v then v else d)"

definition orText :: "string option \<Rightarrow> string \<Rightarrow> string" where
  "orText x d = (case x of None \<Rightarrow> d | Some v \<Rightarrow> if v \<noteq> [] then v else d)"

text \<open>\<^verbatim>\<open>a ?? b\<close> yields \<open>b\<close> only when \<open>a\<close> is \<^verbatim>\<open>undefined\<close> or \<^verbatim>\<open>null\<close>.\<close>

definition nullish :: "bool option \<Rightarrow> bool \<Rightarrow> bool" where
  "nullish x d = (case x of None \<Rightarrow> d | Some v \<Rightarrow> v)"

text \<open>\<^verbatim>\<open>Math.round\<close> rounds to the nearest integer, a tie going up.\<close>

definition Math_round :: "real \<Rightarrow> real" where
  "Math_round x = of_int \<lfloor>x + 1 / 2\<rfloor>"

text \<open>
  \<^verbatim>\<open>toLowerCase\<close> and \<^verbatim>\<open>toUpperCase\<close> on the ASCII letters; a string is a list of
  bytes here, and bytes outside \<open>A\<close>--\<open>Z\<close> (\<open>a\<close>--\<open>z\<close>) are left as they are.
\<close>

definition toLowerCaseChar :: "char \<Rightarrow> char" where
  "toLowerCaseChar c =
     (let n = (of_char c :: nat) in if 65 \<le> n \<and> n \<le> 90 then char_of (n + 32) else c)"

definition toLowerCase :: "string \<Rightarrow> string" where
  "toLowerCase s = map toLowerCaseChar s"

definition toUpperCaseChar :: "char \<Rightarrow> char" where
  "toUpperCaseChar c =
     (let n = (of_char c :: nat) in if 97 \<le> n \<and> n \<le> 122 then char_of (n - 32) else c)"

section \<open>The simulation-metrics snapshot and the two composite indices\<close>

record SimulationMetrics =
  livesSaved :: real
  humanCasualties :: real
  firefightingResource :: real
  infrastructureCondition :: real
  biodiversityCondition :: real
  propertiesCondition :: real
  nuclearPowerStation :: real

text \<open>The seven normalised values, in the order both calculators list them.\<close>

definition normalized :: "SimulationMetrics \<Rightarrow> real list" where
  "normalized finalMetrics =
     [min (livesSaved finalMetrics / 20000) 1,
      1 - min (humanCasualties finalMetrics / 1000) 1,
      firefightingResource finalMetrics / 100,
      infrastructureCondition finalMetrics / 100,
      biodiversityCondition finalMetrics / 100,
      propertiesCondition finalMetrics / 100,
      nuclearPowerStation finalMetrics / 100]"

text \<open>\<^verbatim>\<open>values.reduce((a, b) => a + b, 0)\<close>\<close>

definition reduceSum :: "real list \<Rightarrow> real" where
  "reduceSum vs = foldl (\<lambda>a b. a + b) 0 vs"

definition calculatePerformanceComposite :: "SimulationMetrics \<Rightarrow> real" where
  "calculatePerformanceComposite finalMetrics =
     (let vs = normalized finalMetrics;
          mean = reduceSum vs / real (length vs)
      in Math_round (mean * 100) / 100)"

definition calculateBalanceIndex :: "SimulationMetrics \<Rightarrow> real" where
  "calculateBalanceIndex finalMetrics =
     (let vs = normalized finalMetrics;
          mean = reduceSum vs / real (length vs);
          variance = foldl (\<lambda>acc val. acc + (val - mean) ^ 2) 0 vs / real (length vs)
      in Math_round ((1 - variance) * 100) / 100)"

text \<open>The snapshot of the round-trip example, and one whose first condition exceeds 100.\<close>

definition perfectSnapshot :: SimulationMetrics where
  "perfectSnapshot =
     \<lparr>livesSaved = 20000, humanCasualties = 0, firefightingResource = 100,
      infrastructureCondition = 100, biodiversityCondition = 100,
      propertiesCondition = 100, nuclearPowerStation = 100\<rparr>"

definition overscaleSnapshot :: SimulationMetrics where
  "overscaleSnapshot =
     \<lparr>livesSaved = 0, humanCasualties = 0, firefightingResource = 1000,
      infrastructureCondition = 0, biodiversityCondition = 0,
      propertiesCondition = 0, nuclearPowerStation = 0\<rparr>"

definition nonNegative :: "SimulationMetrics \<Rightarrow> bool" where
  "nonNegative m \<longleftrightarrow>
     0 \<le> livesSaved m \<and> 0 \<le> humanCasualties m \<and> 0 \<le> firefightingResource m \<and>
     0 \<le> infrastructureCondition m \<and> 0 \<le> biodiversityCondition m \<and>
     0 \<le> propertiesCondition m \<and> 0 \<le> nuclearPowerStation m"

definition conditionsWithinScale :: "SimulationMetrics \<Rightarrow> bool" where
  "conditionsWithinScale m \<longleftrightarrow>
     firefightingResource m \<le> 100 \<and> infrastructureCondition m \<le> 100 \<and>
     biodiversityCondition m \<le> 100 \<and> propertiesCondition m \<le> 100 \<and>
     nuclearPowerStation m \<le> 100"

section \<open>The data the engine reads\<close>

record ReorderingFlags =
  simulationMetricsReorderingFlag :: "bool option"
  moralValuesReorderingFlag :: "bool option"

record TelemetryEvent =
  ev_event :: string
  ev_scenarioId :: "int option"
  ev_cvrAnswer :: "bool option"
  ev_valuesAfter :: "string list option"
  ev_preferenceType :: "string option"
  ev_flagsAtConfirmation :: "ReorderingFlags option"

record ScenarioTracking =
  tr_scenarioId :: int
  tr_startTime :: "real option"
  tr_endTime :: "real option"
  tr_switchCount :: "int option"
  tr_cvrVisited :: "bool option"
  tr_cvrVisitCount :: "int option"
  tr_cvrYesAnswers :: "int option"
  tr_apaReordered :: "bool option"
  tr_apaReorderCount :: "int option"

record Decision =
  dc_label :: "string option"
  dc_title :: "string option"

record ScenarioOutcome =
  oc_scenarioId :: int
  oc_decision :: Decision

text \<open>
  An entry of a stored value list is a bare identifier or an object that may carry an
  \<^verbatim>\<open>id\<close> and a \<^verbatim>\<open>name\<close>. The item \<^verbatim>\<open>MoralValuesReorderList\<close> is a string or
  missing; \<open>Unparsable\<close> stands for a stored text on which \<^verbatim>\<open>JSON.parse\<close> or the
  following \<^verbatim>\<open>map\<close> throws.
\<close>

datatype ValueEntry = Bare string | Obj (ve_id: "string option") (ve_name: "string option")

datatype StoredList = NotStored | Unparsable | Stored "ValueEntry list"

record Inputs =
  simulationOutcomes :: "ScenarioOutcome list"
  finalMetrics :: "SimulationMetrics option"
  matchedValues :: "ValueEntry list"
  moralValuesReorder :: StoredList
  scenarioHistory :: "ScenarioTracking list"
  allEvents :: "TelemetryEvent list"
  sessionId :: string
  passthrough :: "string list"
  isSilentMode :: bool
  insertSucceeds :: bool

section \<open>The record the engine produces\<close>

record ScenarioDetail =
  sd_scenarioId :: int
  sd_finalChoice :: string
  sd_aligned :: bool
  sd_switches :: int
  sd_timeSeconds :: real
  sd_cvrVisited :: bool
  sd_cvrVisitCount :: int
  sd_cvrYesAnswers :: int
  sd_apaReordered :: bool
  sd_apaReorderCount :: int

record Trajectory =
  vt_scenarioId :: int
  vt_values :: "string list"
  vt_preferenceType :: string

record SessionDVs =
  cvrArrivals :: int
  cvrYesCount :: int
  cvrNoCount :: int
  apaReorderings :: int
  misalignAfterCvrApaCount :: int
  realignAfterCvrApaCount :: int
  switchCountTotal :: int
  avgDecisionTime :: real
  decisionTimes :: "real list"
  valueConsistencyIndex :: real
  performanceComposite :: real
  balanceIndex :: real
  finalAlignmentByScenario :: "bool list"
  valueOrderTrajectories :: "Trajectory list"
  scenarioDetails :: "ScenarioDetail list"

section \<open>Value lists\<close>

text \<open>
  \<^verbatim>\<open>(v.name || v).toString()\<close> and \<^verbatim>\<open>(v.id || v.name || v).toString()\<close>: an object
  without a usable property prints as \<^verbatim>\<open>[object Object]\<close>.
\<close>

definition objectText :: string where
  "objectText = ''[object Object]''"

fun baselineText :: "ValueEntry \<Rightarrow> string" where
  "baselineText (Bare s) = s"
| "baselineText (Obj i n) = orText n objectText"

fun reorderText :: "ValueEntry \<Rightarrow> string" where
  "reorderText (Bare s) = s"
| "reorderText (Obj i n) = orText i (orText n objectText)"

definition matchedStableValues :: "Inputs \<Rightarrow> string list" where
  "matchedStableValues inp = map (\<lambda>v. toLowerCase (baselineText v)) (matchedValues inp)"

definition moralValuesReorderList :: "Inputs \<Rightarrow> string list" where
  "moralValuesReorderList inp =
     (case moralValuesReorder inp of
        Stored reorderedValues \<Rightarrow> map (\<lambda>v. toLowerCase (reorderText v)) reorderedValues
      | Unparsable \<Rightarrow> matchedStableValues inp
      | NotStored \<Rightarrow> matchedStableValues inp)"

section \<open>Event views\<close>

definition cvrOpenEvents :: "Inputs \<Rightarrow> TelemetryEvent list" where
  "cvrOpenEvents inp = filter (\<lambda>e. ev_event e = ''cvr_opened'') (allEvents inp)"

definition cvrAnswerEvents :: "Inputs \<Rightarrow> TelemetryEvent list" where
  "cvrAnswerEvents inp = filter (\<lambda>e. ev_event e = ''cvr_answered'') (allEvents inp)"

definition apaEvents :: "Inputs \<Rightarrow> TelemetryEvent list" where
  "apaEvents inp = filter (\<lambda>e. ev_event e = ''apa_reordered'') (allEvents inp)"

definition scenarioCvrVisits :: "Inputs \<Rightarrow> int \<Rightarrow> TelemetryEvent list" where
  "scenarioCvrVisits inp sid = filter (\<lambda>e. ev_scenarioId e = Some sid) (cvrOpenEvents inp)"

definition scenarioCvrYesAnswers :: "Inputs \<Rightarrow> int \<Rightarrow> TelemetryEvent list" where
  "scenarioCvrYesAnswers inp sid =
     filter (\<lambda>e. ev_scenarioId e = Some sid \<and> ev_cvrAnswer e = Some True) (cvrAnswerEvents inp)"

definition scenarioOptionSelections :: "Inputs \<Rightarrow> int \<Rightarrow> TelemetryEvent list" where
  "scenarioOptionSelections inp sid =
     filter (\<lambda>e. ev_event e = ''option_selected'' \<and> ev_scenarioId e = Some sid) (allEvents inp)"

definition switchCount :: "Inputs \<Rightarrow> int \<Rightarrow> int" where
  "switchCount inp sid = max 0 (int (length (scenarioOptionSelections inp sid)) - 1)"

definition scenarioApaEvents :: "Inputs \<Rightarrow> int \<Rightarrow> TelemetryEvent list" where
  "scenarioApaEvents inp sid = filter (\<lambda>e. ev_scenarioId e = Some sid) (apaEvents inp)"

section \<open>Decision times and the tracking map\<close>

record TrackingData =
  td_timeSeconds :: real
  td_switches :: int
  td_cvrVisited :: bool
  td_cvrVisitCount :: int
  td_cvrYesAnswers :: int
  td_apaReordered :: bool
  td_apaReorderCount :: int

text \<open>The guard \<^verbatim>\<open>scenario.endTime && scenario.startTime\<close> and the elapsed seconds under it.\<close>

definition hasTiming :: "ScenarioTracking \<Rightarrow> bool" where
  "hasTiming scenario \<longleftrightarrow> truthy (tr_endTime scenario) \<and> truthy (tr_startTime scenario)"

definition elapsedSeconds :: "ScenarioTracking \<Rightarrow> real" where
  "elapsedSeconds scenario =
     (case tr_endTime scenario of
        None \<Rightarrow> 0
      | Some e \<Rightarrow> (case tr_startTime scenario of None \<Rightarrow> 0 | Some s \<Rightarrow> (e - s) / 1000))"

definition trackedData :: "ScenarioTracking \<Rightarrow> TrackingData" where
  "trackedData scenario =
     \<lparr>td_timeSeconds = Math_round (elapsedSeconds scenario),
      td_switches = orCount (tr_switchCount scenario) 0,
      td_cvrVisited = orFlag (tr_cvrVisited scenario) False,
      td_cvrVisitCount = orCount (tr_cvrVisitCount scenario) 0,
      td_cvrYesAnswers = orCount (tr_cvrYesAnswers scenario) 0,
      td_apaReordered = orFlag (tr_apaReordered scenario) False,
      td_apaReorderCount = orCount (tr_apaReorderCount scenario) 0\<rparr>"

text \<open>
  One round of \<^verbatim>\<open>scenarioHistory.forEach\<close>: the state is the array \<^verbatim>\<open>decisionTimes\<close>
  and the map \<^verbatim>\<open>scenarioDetailsMap\<close>.
\<close>

definition historyStep ::
  "ScenarioTracking \<Rightarrow> real list \<times> (int \<rightharpoonup> TrackingData) \<Rightarrow> real list \<times> (int \<rightharpoonup> TrackingData)"
where
  "historyStep scenario acc =
     (if hasTiming scenario
      then (fst acc @ [elapsedSeconds scenario],
            (snd acc)(tr_scenarioId scenario \<mapsto> trackedData scenario))
      else acc)"

definition scanHistory :: "Inputs \<Rightarrow> real list \<times> (int \<rightharpoonup> TrackingData)" where
  "scanHistory inp = fold historyStep (scenarioHistory inp) ([], Map.empty)"

definition scenarioDetailsMap :: "Inputs \<Rightarrow> (int \<rightharpoonup> TrackingData)" where
  "scenarioDetailsMap inp = snd (scanHistory inp)"

text \<open>The fallback: when no time was pushed, one 75 per outcome.\<close>

definition computeDecisionTimes :: "Inputs \<Rightarrow> real list" where
  "computeDecisionTimes inp =
     (let pushed = fst (scanHistory inp)
      in if length pushed = 0
         then fold (\<lambda>outcome ts. ts @ [75]) (simulationOutcomes inp) pushed
         else pushed)"

definition computeAvgDecisionTime :: "real list \<Rightarrow> real" where
  "computeAvgDecisionTime ts =
     (if length ts > 0 then reduceSum ts / real (length ts) else 0)"

section \<open>Alignment and the per-scenario detail records\<close>

definition optionValue :: "ScenarioOutcome \<Rightarrow> string" where
  "optionValue outcome = toLowerCase (orText (dc_label (oc_decision outcome)) [])"

definition valueExistsInList :: "Inputs \<Rightarrow> ScenarioOutcome \<Rightarrow> bool" where
  "valueExistsInList inp outcome =
     (let scenarioId = oc_scenarioId outcome
      in if scenarioId = 1 then optionValue outcome \<in> set (matchedStableValues inp)
         else if scenarioId = 2 \<or> scenarioId = 3
         then optionValue outcome \<in> set (moralValuesReorderList inp)
         else False)"

definition aligned :: "Inputs \<Rightarrow> ScenarioOutcome \<Rightarrow> bool" where
  "aligned inp outcome \<longleftrightarrow>
     valueExistsInList inp outcome \<and>
     length (scenarioCvrYesAnswers inp (oc_scenarioId outcome)) = 0"

text \<open>\<^verbatim>\<open>decisionTimes[index] || 0\<close>: a read past the end is \<^verbatim>\<open>undefined\<close>.\<close>

definition entryOrZero :: "real list \<Rightarrow> nat \<Rightarrow> real" where
  "entryOrZero ts index =
     (if index < length ts then (if ts ! index \<noteq> 0 then ts ! index else 0) else 0)"

definition trackingData :: "Inputs \<Rightarrow> real list \<Rightarrow> nat \<Rightarrow> ScenarioOutcome \<Rightarrow> TrackingData" where
  "trackingData inp ts index outcome =
     (case scenarioDetailsMap inp (oc_scenarioId outcome) of
        Some td \<Rightarrow> td
      | None \<Rightarrow>
          \<lparr>td_timeSeconds = Math_round (entryOrZero ts index),
           td_switches = 0,
           td_cvrVisited = False,
           td_cvrVisitCount = 0,
           td_cvrYesAnswers = 0,
           td_apaReordered = False,
           td_apaReorderCount = 0\<rparr>)"

definition orElse :: "int \<Rightarrow> int \<Rightarrow> int" where
  "orElse a b = (if a \<noteq> 0 then a else b)"

definition scenarioDetail :: "Inputs \<Rightarrow> real list \<Rightarrow> nat \<Rightarrow> ScenarioOutcome \<Rightarrow> ScenarioDetail" where
  "scenarioDetail inp ts index outcome =
     (let sid = oc_scenarioId outcome;
          td = trackingData inp ts index outcome
      in \<lparr>sd_scenarioId = sid,
          sd_finalChoice =
            orText (dc_title (oc_decision outcome))
              (orText (dc_label (oc_decision outcome)) ''Unknown''),
          sd_aligned = aligned inp outcome,
          sd_switches = orElse (td_switches td) (switchCount inp sid),
          sd_timeSeconds = td_timeSeconds td,
          sd_cvrVisited = (td_cvrVisited td \<or> length (scenarioCvrVisits inp sid) > 0),
          sd_cvrVisitCount = orElse (td_cvrVisitCount td) (int (length (scenarioCvrVisits inp sid))),
          sd_cvrYesAnswers =
            orElse (td_cvrYesAnswers td) (int (length (scenarioCvrYesAnswers inp sid))),
          sd_apaReordered = (td_apaReordered td \<or> length (scenarioApaEvents inp sid) > 0),
          sd_apaReorderCount =
            orElse (td_apaReorderCount td) (int (length (scenarioApaEvents inp sid)))\<rparr>)"

text \<open>
  One round of \<^verbatim>\<open>simulationOutcomes.forEach((outcome, index) => ...)\<close>: it pushes onto
  \<^verbatim>\<open>finalAlignmentByScenario\<close> and onto \<^verbatim>\<open>scenarioDetails\<close>.
\<close>

definition outcomeStep ::
  "Inputs \<Rightarrow> real list \<Rightarrow> nat \<times> ScenarioOutcome \<Rightarrow> bool list \<times> ScenarioDetail list
     \<Rightarrow> bool list \<times> ScenarioDetail list"
where
  "outcomeStep inp ts io acc =
     (fst acc @ [aligned inp (snd io)], snd acc @ [scenarioDetail inp ts (fst io) (snd io)])"

definition scanOutcomes :: "Inputs \<Rightarrow> bool list \<times> ScenarioDetail list" where
  "scanOutcomes inp =
     fold (outcomeStep inp (computeDecisionTimes inp))
       (enumerate 0 (simulationOutcomes inp)) ([], [])"

section \<open>Counters over the detail records\<close>

definition confirmationFlags :: "Inputs \<Rightarrow> int \<Rightarrow> ReorderingFlags option" where
  "confirmationFlags inp sid =
     (let scenarioEvents = filter (\<lambda>e. ev_scenarioId e = Some sid) (allEvents inp)
      in case find (\<lambda>e. ev_event e = ''option_confirmed'') scenarioEvents of
           None \<Rightarrow> None
         | Some confirmationEvent \<Rightarrow> ev_flagsAtConfirmation confirmationEvent)"

definition hadReordering :: "Inputs \<Rightarrow> int \<Rightarrow> bool" where
  "hadReordering inp sid =
     (case confirmationFlags inp sid of
        None \<Rightarrow> False
      | Some flags \<Rightarrow>
          nullish (simulationMetricsReorderingFlag flags) False \<or>
          nullish (moralValuesReorderingFlag flags) False)"

text \<open>
  One round of \<^verbatim>\<open>scenarioDetails.forEach\<close>; the state is the pair
  (\<^verbatim>\<open>misalignAfterCvrApaCount\<close>, \<^verbatim>\<open>realignAfterCvrApaCount\<close>).
\<close>

definition counterStep :: "Inputs \<Rightarrow> ScenarioDetail \<Rightarrow> int \<times> int \<Rightarrow> int \<times> int" where
  "counterStep inp scenario acc =
     (let realign = (if hadReordering inp (sd_scenarioId scenario) then snd acc + 1 else snd acc);
          misalign = (if \<not> sd_aligned scenario then fst acc + 1 else fst acc)
      in (misalign, realign))"

definition countAfterCvrApa :: "Inputs \<Rightarrow> ScenarioDetail list \<Rightarrow> int \<times> int" where
  "countAfterCvrApa inp details = fold (counterStep inp) details (0, 0)"

definition trajectoryStep :: "TelemetryEvent \<Rightarrow> Trajectory list \<Rightarrow> Trajectory list" where
  "trajectoryStep e acc =
     (case ev_valuesAfter e of
        None \<Rightarrow> acc
      | Some vs \<Rightarrow>
          (case ev_scenarioId e of
             None \<Rightarrow> acc
           | Some sid \<Rightarrow>
               acc @ [\<lparr>vt_scenarioId = sid, vt_values = vs,
                        vt_preferenceType = orText (ev_preferenceType e) ''unknown''\<rparr>]))"

section \<open>The whole computation\<close>

definition buildSessionDVs :: "Inputs \<Rightarrow> SimulationMetrics \<Rightarrow> SessionDVs" where
  "buildSessionDVs inp fm =
     (let ts = computeDecisionTimes inp;
          alignment = fst (scanOutcomes inp);
          details = snd (scanOutcomes inp);
          alignedCount = length (filter (\<lambda>b. b) alignment);
          counts = countAfterCvrApa inp details
      in \<lparr>cvrArrivals = int (length (cvrOpenEvents inp)),
          cvrYesCount = int (length (filter (\<lambda>e. ev_cvrAnswer e = Some True) (cvrAnswerEvents inp))),
          cvrNoCount = int (length (filter (\<lambda>e. ev_cvrAnswer e = Some False) (cvrAnswerEvents inp))),
          apaReorderings = int (length (apaEvents inp)),
          misalignAfterCvrApaCount = fst counts,
          realignAfterCvrApaCount = snd counts,
          switchCountTotal = foldl (\<lambda>sum s. sum + sd_switches s) 0 details,
          avgDecisionTime = computeAvgDecisionTime ts,
          decisionTimes = ts,
          valueConsistencyIndex =
            (if length alignment > 0 then real alignedCount / real (length alignment) else 0),
          performanceComposite = calculatePerformanceComposite fm,
          balanceIndex = calculateBalanceIndex fm,
          finalAlignmentByScenario = alignment,
          valueOrderTrajectories = fold trajectoryStep (apaEvents inp) [],
          scenarioDetails = details\<rparr>)"

text \<open>
  The guard \<^verbatim>\<open>!simulationOutcomes.length || !finalMetrics\<close>: under it the function
  returns before any record is built.
\<close>

definition computeSessionDVs :: "Inputs \<Rightarrow> SessionDVs option" where
  "computeSessionDVs inp =
     (if length (simulationOutcomes inp) = 0 then None
      else case finalMetrics inp of
             None \<Rightarrow> None
           | Some fm \<Rightarrow> Some (buildSessionDVs inp fm))"

section \<open>Effects: component state, session storage and the persistence sink\<close>

text \<open>
  The payload handed to \<^verbatim>\<open>MongoService.insertSessionMetrics\<close>: the session id, the
  computed record, the reorder list with each entry's first letter in upper case, and the
  stored lists that are copied as they are (carried here as their stored texts).
\<close>

record Payload =
  session_id :: string
  session_dvs :: SessionDVs
  moral_values_reorder_list :: "string list"
  stored_lists :: "string list"

definition capitalise :: "string \<Rightarrow> string" where
  "capitalise v = (case v of [] \<Rightarrow> [] | c # cs \<Rightarrow> toUpperCaseChar c # cs)"

definition payload :: "Inputs \<Rightarrow> SessionDVs \<Rightarrow> Payload" where
  "payload inp m =
     \<lparr>session_id = sessionId inp,
      session_dvs = m,
      moral_values_reorder_list = map capitalise (moralValuesReorderList inp),
      stored_lists = passthrough inp\<rparr>"

text \<open>
  \<open>metricsCalculated\<close> is the session-storage item of that name, \<open>metrics\<close> the component
  state set by \<^verbatim>\<open>setMetrics\<close>, \<open>inserted\<close> the writes the sink has accepted,
  \<open>navigatesBack\<close> whether a navigation to the thank-you page was requested.
\<close>

record PageState =
  metricsCalculated :: "string option"
  metrics :: "SessionDVs option"
  inserted :: "Payload list"
  navigatesBack :: bool

text \<open>
  \<^verbatim>\<open>calculateMetrics\<close>. The early \<^verbatim>\<open>return\<close> leaves the \<^verbatim>\<open>try\<close> block without
  passing through \<^verbatim>\<open>catch\<close>; a rejected insert (\<open>insertSucceeds\<close> false) is the
  exception the \<^verbatim>\<open>catch\<close> block handles.
\<close>

definition calculateMetrics :: "Inputs \<Rightarrow> PageState \<Rightarrow> PageState" where
  "calculateMetrics inp st =
     (case computeSessionDVs inp of
        None \<Rightarrow> st
      | Some calculatedMetrics \<Rightarrow>
          (let st1 = st\<lparr>metrics := Some calculatedMetrics\<rparr>
           in if insertSucceeds inp
              then st1\<lparr>inserted := inserted st1 @ [payload inp calculatedMetrics],
                      metricsCalculated := Some ''true'',
                      navigatesBack := (navigatesBack st1 \<or> isSilentMode inp)\<rparr>
              else st1\<lparr>metricsCalculated := Some ''true'',
                      navigatesBack := (navigatesBack st1 \<or> isSilentMode inp)\<rparr>))"

text \<open>The effect hook that calls it when the page mounts.\<close>

definition onMount :: "Inputs \<Rightarrow> PageState \<Rightarrow> PageState" where
  "onMount inp st =
     (if isSilentMode inp \<and> metricsCalculated st = Some ''true''
      then st\<lparr>navigatesBack := True\<rparr>
      else calculateMetrics inp st)"

section \<open>Concrete sessions\<close>

definition noEvent :: TelemetryEvent where
  "noEvent =
     \<lparr>ev_event = [], ev_scenarioId = None, ev_cvrAnswer = None, ev_valuesAfter = None,
      ev_preferenceType = None, ev_flagsAtConfirmation = None\<rparr>"

definition untracked :: "int \<Rightarrow> ScenarioTracking" where
  "untracked sid =
     \<lparr>tr_scenarioId = sid, tr_startTime = None, tr_endTime = None, tr_switchCount = None,
      tr_cvrVisited = None, tr_cvrVisitCount = None, tr_cvrYesAnswers = None,
      tr_apaReordered = None, tr_apaReorderCount = None\<rparr>"

text \<open>
  Two scenarios. Scenario 1 was timed (12.5 seconds) and confirmed after a reordering of
  the simulation metrics; scenario 2 has a tracking record with a switch count of 5 but
  no timestamps, two option selections and a CVR answer "yes".
\<close>

definition exampleSession :: Inputs where
  "exampleSession =
     \<lparr>simulationOutcomes =
        [\<lparr>oc_scenarioId = 1,
          oc_decision = \<lparr>dc_label = Some ''Safety'', dc_title = None\<rparr>\<rparr>,
         \<lparr>oc_scenarioId = 2,
          oc_decision = \<lparr>dc_label = Some ''Fairness'', dc_title = Some ''Protect the town''\<rparr>\<rparr>],
      finalMetrics = Some perfectSnapshot,
      matchedValues = [Bare ''Safety'', Obj None (Some ''Efficiency'')],
      moralValuesReorder = Stored [Obj (Some ''fairness'') None],
      scenarioHistory =
        [(untracked 1)\<lparr>tr_startTime := Some 1000, tr_endTime := Some 13500,
                       tr_switchCount := Some 2\<rparr>,
         (untracked 2)\<lparr>tr_switchCount := Some 5\<rparr>],
      allEvents =
        [noEvent\<lparr>ev_event := ''cvr_opened'', ev_scenarioId := Some 1\<rparr>,
         noEvent\<lparr>ev_event := ''option_selected'', ev_scenarioId := Some 2\<rparr>,
         noEvent\<lparr>ev_event := ''option_selected'', ev_scenarioId := Some 2\<rparr>,
         noEvent\<lparr>ev_event := ''cvr_answered'', ev_scenarioId := Some 2,
                 ev_cvrAnswer := Some True\<rparr>,
         noEvent\<lparr>ev_event := ''option_confirmed'', ev_scenarioId := Some 1,
                 ev_flagsAtConfirmation :=
                   Some \<lparr>simulationMetricsReorderingFlag = Some True,
                         moralValuesReorderingFlag = None\<rparr>\<rparr>],
      sessionId = ''session-1'',
      passthrough = [],
      isSilentMode = True,
      insertSucceeds = True\<rparr>"

definition exampleResult :: SessionDVs where
  "exampleResult =
     \<lparr>cvrArrivals = 1, cvrYesCount = 1, cvrNoCount = 0, apaReorderings = 0,
      misalignAfterCvrApaCount = 1, realignAfterCvrApaCount = 1,
      switchCountTotal = 3, avgDecisionTime = 25 / 2,
      decisionTimes = [25 / 2], valueConsistencyIndex = 1 / 2,
      performanceComposite = 1, balanceIndex = 1,
      finalAlignmentByScenario = [True, False], valueOrderTrajectories = [],
      scenarioDetails =
        [\<lparr>sd_scenarioId = 1, sd_finalChoice = ''Safety'', sd_aligned = True,
          sd_switches = 2, sd_timeSeconds = 13, sd_cvrVisited = True,
          sd_cvrVisitCount = 1, sd_cvrYesAnswers = 0,
          sd_apaReordered = False, sd_apaReorderCount = 0\<rparr>,
         \<lparr>sd_scenarioId = 2, sd_finalChoice = ''Protect the town'',
          sd_aligned = False, sd_switches = 1, sd_timeSeconds = 0,
          sd_cvrVisited = False, sd_cvrVisitCount = 0,
          sd_cvrYesAnswers = 1, sd_apaReordered = False,
          sd_apaReorderCount = 0\<rparr>]\<rparr>"

text \<open>
  One scenario with no reference set (id 7), confirmed after a reordering of the moral
  values: it is counted by both counters.
\<close>

definition flaggedSession :: Inputs where
  "flaggedSession =
     exampleSession
       \<lparr>simulationOutcomes :=
          [\<lparr>oc_scenarioId = 7,
            oc_decision = \<lparr>dc_label = Some ''Safety'', dc_title = None\<rparr>\<rparr>],
        allEvents :=
          [noEvent\<lparr>ev_event := ''option_confirmed'', ev_scenarioId := Some 7,
                   ev_flagsAtConfirmation :=
                     Some \<lparr>simulationMetricsReorderingFlag = None,
                           moralValuesReorderingFlag = Some True\<rparr>\<rparr>]\<rparr>"

text \<open>One aligned scenario with no events at all: it is counted by neither counter.\<close>

definition quietSession :: Inputs where
  "quietSession =
     exampleSession
       \<lparr>simulationOutcomes :=
          [\<lparr>oc_scenarioId = 1,
            oc_decision = \<lparr>dc_label = Some ''Safety'', dc_title = None\<rparr>\<rparr>],
        allEvents := []\<rparr>"

text \<open>The records computed from these two sessions.\<close>

definition flaggedResult :: SessionDVs where
  "flaggedResult =
     \<lparr>cvrArrivals = 0, cvrYesCount = 0, cvrNoCount = 0, apaReorderings = 0,
      misalignAfterCvrApaCount = 1, realignAfterCvrApaCount = 1,
      switchCountTotal = 0, avgDecisionTime = 25 / 2,
      decisionTimes = [25 / 2], valueConsistencyIndex = 0,
      performanceComposite = 1, balanceIndex = 1,
      finalAlignmentByScenario = [False], valueOrderTrajectories = [],
      scenarioDetails =
        [\<lparr>sd_scenarioId = 7, sd_finalChoice = ''Safety'', sd_aligned = False,
          sd_switches = 0, sd_timeSeconds = 13, sd_cvrVisited = False,
          sd_cvrVisitCount = 0, sd_cvrYesAnswers = 0,
          sd_apaReordered = False, sd_apaReorderCount = 0\<rparr>]\<rparr>"

definition quietResult :: SessionDVs where
  "quietResult =
     \<lparr>cvrArrivals = 0, cvrYesCount = 0, cvrNoCount = 0, apaReorderings = 0,
      misalignAfterCvrApaCount = 0, realignAfterCvrApaCount = 0,
      switchCountTotal = 2, avgDecisionTime = 25 / 2,
      decisionTimes = [25 / 2], valueConsistencyIndex = 1,
      performanceComposite = 1, balanceIndex = 1,
      finalAlignmentByScenario = [True], valueOrderTrajectories = [],
      scenarioDetails =
        [\<lparr>sd_scenarioId = 1, sd_finalChoice = ''Safety'', sd_aligned = True,
          sd_switches = 2, sd_timeSeconds = 13, sd_cvrVisited = False,
          sd_cvrVisitCount = 0, sd_cvrYesAnswers = 0,
          sd_apaReordered = False, sd_apaReorderCount = 0\<rparr>]\<rparr>"

text \<open>The example session without its simulation-metrics snapshot, and a fresh page.\<close>

definition missingSnapshotSession :: Inputs where
  "missingSnapshotSession = exampleSession\<lparr>finalMetrics := None\<rparr>"

definition freshPage :: PageState where
  "freshPage = \<lparr>metricsCalculated = None, metrics = None, inserted = [], navigatesBack = False\<rparr>"

section \<open>Auxiliary facts\<close>

subsection \<open>Rounding\<close>

lemma Math_round_nonneg: "0 \<le> x \<Longrightarrow> 0 \<le> Math_round x"
  unfolding Math_round_def by simp

lemma Math_round_le_100: "x \<le> 100 \<Longrightarrow> Math_round x \<le> 100"
proof -
  assume "x \<le> 100"
  then have "\<lfloor>x + 1 / 2\<rfloor> \<le> 100" by linarith
  then show ?thesis unfolding Math_round_def by linarith
qed

lemma Math_round_zero: "Math_round 0 = 0"
  by (simp add: Math_round_def)

lemma Math_round_integral: "Math_round x \<in> \<int>"
  by (simp add: Math_round_def)

lemma Math_round_nearest: "\<bar>Math_round x - x\<bar> \<le> 1 / 2"
  unfolding Math_round_def by linarith

subsection \<open>The loops as list functions\<close>

lemma reduceSum_sum_list: "reduceSum vs = sum_list vs"
proof -
  have "foldl (\<lambda>a b. a + b) a vs = a + sum_list vs" for a :: real
    by (induction vs arbitrary: a) simp_all
  then show ?thesis by (simp add: reduceSum_def)
qed

lemma fold_historyStep_fst:
  "fst (fold historyStep hs acc) = fst acc @ map elapsedSeconds (filter hasTiming hs)"
  by (induction hs arbitrary: acc) (simp_all add: historyStep_def)

lemma fold_historyStep_snd:
  assumes "\<forall>t\<in>set hs. hasTiming t \<and> tr_scenarioId t = k \<longrightarrow> trackedData t = d"
  shows "snd (fold historyStep hs acc) k =
           (if \<exists>t\<in>set hs. hasTiming t \<and> tr_scenarioId t = k then Some d else snd acc k)"
  using assms
proof (induction hs arbitrary: acc)
  case Nil
  then show ?case by simp
next
  case (Cons h hs)
  have step: "snd (historyStep h acc) k =
      (if hasTiming h \<and> tr_scenarioId h = k then Some d else snd acc k)"
    using Cons.prems by (simp add: historyStep_def)
  have "snd (fold historyStep hs (historyStep h acc)) k =
      (if \<exists>t\<in>set hs. hasTiming t \<and> tr_scenarioId t = k then Some d
       else snd (historyStep h acc) k)"
    using Cons.IH [of "historyStep h acc"] Cons.prems by simp
  with step show ?case by auto
qed

lemma scenarioDetailsMap_timed:
  assumes "distinct (map tr_scenarioId (scenarioHistory inp))"
    and "s \<in> set (scenarioHistory inp)" and "hasTiming s"
  shows "scenarioDetailsMap inp (tr_scenarioId s) = Some (trackedData s)"
proof -
  have same: "\<forall>t\<in>set (scenarioHistory inp).
      hasTiming t \<and> tr_scenarioId t = tr_scenarioId s \<longrightarrow> trackedData t = trackedData s"
    using assms(1,2) by (auto simp: distinct_map dest: inj_onD)
  show ?thesis
    unfolding scenarioDetailsMap_def scanHistory_def
    using fold_historyStep_snd [OF same, of "([], Map.empty)"] assms(2,3) by auto
qed

lemma scenarioDetailsMap_untimed:
  assumes "\<not> (\<exists>t\<in>set (scenarioHistory inp). hasTiming t \<and> tr_scenarioId t = k)"
  shows "scenarioDetailsMap inp k = None"
proof -
  have "\<forall>t\<in>set (scenarioHistory inp).
      hasTiming t \<and> tr_scenarioId t = k \<longrightarrow> trackedData t = undefined"
    using assms by blast
  from fold_historyStep_snd [OF this, of "([], Map.empty)"] assms
  show ?thesis
    unfolding scenarioDetailsMap_def scanHistory_def by simp
qed

lemma fold_push_75: "fold (\<lambda>outcome ts. ts @ [75::real]) os ts = ts @ replicate (length os) 75"
  by (induction os arbitrary: ts) (simp_all add: replicate_append_same)

lemma computeDecisionTimes_eq:
  "computeDecisionTimes inp =
     (if filter hasTiming (scenarioHistory inp) = []
      then replicate (length (simulationOutcomes inp)) 75
      else map elapsedSeconds (filter hasTiming (scenarioHistory inp)))"
  by (simp add: computeDecisionTimes_def scanHistory_def fold_historyStep_fst fold_push_75)

lemma fold_outcomeStep:
  "fold (outcomeStep inp ts) ios acc =
     (fst acc @ map (\<lambda>io. aligned inp (snd io)) ios,
      snd acc @ map (\<lambda>io. scenarioDetail inp ts (fst io) (snd io)) ios)"
  by (induction ios arbitrary: acc) (simp_all add: outcomeStep_def)

lemma map_snd_of_enumerate: "map (\<lambda>io. f (snd io)) (enumerate n xs) = map f xs"
  by (induction xs arbitrary: n) simp_all

lemma scanOutcomes_fst:
  "fst (scanOutcomes inp) = map (aligned inp) (simulationOutcomes inp)"
  by (simp add: scanOutcomes_def fold_outcomeStep map_snd_of_enumerate)

lemma scanOutcomes_snd_length:
  "length (snd (scanOutcomes inp)) = length (simulationOutcomes inp)"
  by (simp add: scanOutcomes_def fold_outcomeStep)

lemma scanOutcomes_snd_nth:
  "i < length (simulationOutcomes inp) \<Longrightarrow>
   snd (scanOutcomes inp) ! i =
     scenarioDetail inp (computeDecisionTimes inp) i (simulationOutcomes inp ! i)"
  by (simp add: scanOutcomes_def fold_outcomeStep nth_enumerate_eq)

lemma fold_counterStep:
  "fold (counterStep inp) ds acc =
     (fst acc + int (length (filter (\<lambda>s. \<not> sd_aligned s) ds)),
      snd acc + int (length (filter (\<lambda>s. hadReordering inp (sd_scenarioId s)) ds)))"
  by (induction ds arbitrary: acc) (simp_all add: counterStep_def)

lemma computeSessionDVs_Some:
  assumes "computeSessionDVs inp = Some r"
  obtains fm where "simulationOutcomes inp \<noteq> []" and "finalMetrics inp = Some fm"
    and "r = buildSessionDVs inp fm"
  using assms by (auto simp: computeSessionDVs_def split: if_splits option.splits)

lemma produced_fields:
  assumes "computeSessionDVs inp = Some r"
  shows "decisionTimes r = computeDecisionTimes inp"
    and "avgDecisionTime r = computeAvgDecisionTime (computeDecisionTimes inp)"
    and "finalAlignmentByScenario r = fst (scanOutcomes inp)"
    and "scenarioDetails r = snd (scanOutcomes inp)"
    and "misalignAfterCvrApaCount r = fst (countAfterCvrApa inp (snd (scanOutcomes inp)))"
    and "realignAfterCvrApaCount r = snd (countAfterCvrApa inp (snd (scanOutcomes inp)))"
  using assms by (auto elim!: computeSessionDVs_Some simp: buildSessionDVs_def Let_def)

lemma example_computed: "computeSessionDVs exampleSession = Some exampleResult"
  by code_simp

lemma flagged_computed: "computeSessionDVs flaggedSession = Some flaggedResult"
  by code_simp

lemma quiet_computed: "computeSessionDVs quietSession = Some quietResult"
  by code_simp

lemma details_length:
  "computeSessionDVs inp = Some r \<Longrightarrow>
   length (scenarioDetails r) = length (simulationOutcomes inp)"
  by (simp add: produced_fields(4) scanOutcomes_snd_length)

lemma details_nth:
  "computeSessionDVs inp = Some r \<Longrightarrow> i < length (simulationOutcomes inp) \<Longrightarrow>
   scenarioDetails r ! i =
     scenarioDetail inp (computeDecisionTimes inp) i (simulationOutcomes inp ! i)"
  by (simp add: produced_fields(4) scanOutcomes_snd_nth)

lemma details_ids:
  assumes "computeSessionDVs inp = Some r"
  shows "map sd_scenarioId (scenarioDetails r) = map oc_scenarioId (simulationOutcomes inp)"
proof (rule nth_equalityI)
  show "length (map sd_scenarioId (scenarioDetails r)) =
        length (map oc_scenarioId (simulationOutcomes inp))"
    using details_length [OF assms] by simp
next
  fix i assume "i < length (map sd_scenarioId (scenarioDetails r))"
  then have i: "i < length (simulationOutcomes inp)"
    using details_length [OF assms] by simp
  then show "map sd_scenarioId (scenarioDetails r) ! i =
             map oc_scenarioId (simulationOutcomes inp) ! i"
    using details_length [OF assms] details_nth [OF assms i]
    by (simp add: scenarioDetail_def Let_def)
qed

lemma details_aligned:
  assumes "computeSessionDVs inp = Some r"
  shows "map sd_aligned (scenarioDetails r) = finalAlignmentByScenario r"
proof (rule nth_equalityI)
  show "length (map sd_aligned (scenarioDetails r)) = length (finalAlignmentByScenario r)"
    using details_length [OF assms] assms by (simp add: produced_fields(3) scanOutcomes_fst)
next
  fix i assume "i < length (map sd_aligned (scenarioDetails r))"
  then have i: "i < length (simulationOutcomes inp)"
    using details_length [OF assms] by simp
  then show "map sd_aligned (scenarioDetails r) ! i = finalAlignmentByScenario r ! i"
    using details_length [OF assms] details_nth [OF assms i] assms
    by (simp add: scenarioDetail_def Let_def produced_fields(3) scanOutcomes_fst)
qed

lemma orElse_orCount: "orElse (orCount x 0) y = orCount x y"
  by (simp add: orElse_def orCount_def split: option.splits)

lemma orFlag_or: "(orFlag x False \<or> b) = orFlag x b"
  by (auto simp: orFlag_def split: option.splits)

lemma scenarioDetail_tracked:
  assumes "scenarioDetailsMap inp (oc_scenarioId outcome) = Some (trackedData s)"
  shows "scenarioDetail inp ts i outcome =
     \<lparr>sd_scenarioId = oc_scenarioId outcome,
      sd_finalChoice =
        orText (dc_title (oc_decision outcome)) (orText (dc_label (oc_decision outcome)) ''Unknown''),
      sd_aligned = aligned inp outcome,
      sd_switches = orCount (tr_switchCount s) (switchCount inp (oc_scenarioId outcome)),
      sd_timeSeconds = Math_round (elapsedSeconds s),
      sd_cvrVisited =
        orFlag (tr_cvrVisited s) (length (scenarioCvrVisits inp (oc_scenarioId outcome)) > 0),
      sd_cvrVisitCount =
        orCount (tr_cvrVisitCount s) (int (length (scenarioCvrVisits inp (oc_scenarioId outcome)))),
      sd_cvrYesAnswers =
        orCount (tr_cvrYesAnswers s)
          (int (length (scenarioCvrYesAnswers inp (oc_scenarioId outcome)))),
      sd_apaReordered =
        orFlag (tr_apaReordered s) (length (scenarioApaEvents inp (oc_scenarioId outcome)) > 0),
      sd_apaReorderCount =
        orCount (tr_apaReorderCount s)
          (int (length (scenarioApaEvents inp (oc_scenarioId outcome))))\<rparr>"
  using assms
  by (simp add: scenarioDetail_def trackingData_def trackedData_def Let_def
      orElse_orCount orFlag_or)

section \<open>The composite indices\<close>

text \<open>
  Claim C9: for the snapshot with 20000 lives saved, no casualties and every condition at
  100, the performance composite is 1.0 and the balance index is 1.0.
\<close>

theorem perfect_snapshot_indices:
  "calculatePerformanceComposite perfectSnapshot = 1 \<and>
   calculateBalanceIndex perfectSnapshot = 1"
proof -
  have "normalized perfectSnapshot = [1, 1, 1, 1, 1, 1, 1]"
    by (simp add: normalized_def perfectSnapshot_def)
  then show ?thesis
    by (simp add: calculatePerformanceComposite_def calculateBalanceIndex_def
        reduceSum_def Math_round_def)
qed

lemma foldl_squares_nonneg:
  "0 \<le> a \<Longrightarrow> 0 \<le> foldl (\<lambda>acc val. acc + (val - mean) ^ 2) (a::real) xs"
  by (induction xs arbitrary: a) simp_all

lemma calculateBalanceIndex_le_1: "calculateBalanceIndex m \<le> 1"
proof -
  define variance where "variance =
    foldl (\<lambda>acc val. acc + (val - reduceSum (normalized m) / real (length (normalized m))) ^ 2)
      0 (normalized m) / real (length (normalized m))"
  have "0 \<le> variance"
    unfolding variance_def using foldl_squares_nonneg [of 0] by simp
  then have "(1 - variance) * 100 \<le> 100"
    by simp
  then have "Math_round ((1 - variance) * 100) \<le> 100"
    by (rule Math_round_le_100)
  then have "Math_round ((1 - variance) * 100) / 100 \<le> 1"
    by simp
  then show ?thesis
    unfolding calculateBalanceIndex_def Let_def variance_def .
qed

lemma calculatePerformanceComposite_bounds:
  assumes "nonNegative m" and "conditionsWithinScale m"
  shows "0 \<le> calculatePerformanceComposite m \<and> calculatePerformanceComposite m \<le> 1"
proof -
  define mean where "mean = reduceSum (normalized m) / real (length (normalized m))"
  have "0 \<le> mean \<and> mean \<le> 1"
    using assms
    by (simp add: mean_def normalized_def reduceSum_def nonNegative_def
        conditionsWithinScale_def min_def)
  then have "0 \<le> mean * 100" and "mean * 100 \<le> 100"
    by simp_all
  then have "0 \<le> Math_round (mean * 100)" and "Math_round (mean * 100) \<le> 100"
    by (simp_all add: Math_round_nonneg Math_round_le_100)
  then have "0 \<le> Math_round (mean * 100) / 100 \<and> Math_round (mean * 100) / 100 \<le> 1"
    by simp
  then show ?thesis
    unfolding calculatePerformanceComposite_def Let_def mean_def .
qed

text \<open>
  Claim C6, as stated, fails: non-negative fields alone do not keep the performance
  composite at or below 1, since the five condition fields are divided by 100 without a
  cap. With a firefighting resource of 1000 and every other field 0 the composite is 1.57.
\<close>

theorem overscale_composite_above_one:
  "nonNegative overscaleSnapshot \<and>
   \<not> (0 \<le> calculatePerformanceComposite overscaleSnapshot \<and>
      calculatePerformanceComposite overscaleSnapshot \<le> 1)"
  by (simp add: nonNegative_def calculatePerformanceComposite_def normalized_def
      overscaleSnapshot_def reduceSum_def Math_round_def)

text \<open>
  Claim C6, amended: for every snapshot whose seven fields are non-negative and whose five
  condition fields are at most 100, the performance composite lies in \<open>[0, 1]\<close> and the
  balance index is at most 1.
\<close>

theorem composite_indices_bounded:
  assumes "nonNegative m" and "conditionsWithinScale m"
  shows "0 \<le> calculatePerformanceComposite m \<and> calculatePerformanceComposite m \<le> 1 \<and>
         calculateBalanceIndex m \<le> 1"
  using calculatePerformanceComposite_bounds [OF assms] calculateBalanceIndex_le_1 [of m]
  by simp

text \<open>The amended claim C6 at the snapshot of the round-trip example.\<close>

theorem composite_indices_bounded_witness:
  "nonNegative perfectSnapshot \<and> conditionsWithinScale perfectSnapshot \<and>
   0 \<le> calculatePerformanceComposite perfectSnapshot \<and>
   calculatePerformanceComposite perfectSnapshot \<le> 1 \<and>
   calculateBalanceIndex perfectSnapshot \<le> 1"
proof -
  have nn: "nonNegative perfectSnapshot"
    by (simp add: nonNegative_def perfectSnapshot_def)
  have ws: "conditionsWithinScale perfectSnapshot"
    by (simp add: conditionsWithinScale_def perfectSnapshot_def)
  show ?thesis
    using nn ws composite_indices_bounded [OF nn ws] by simp
qed

section \<open>Missing data\<close>

text \<open>
  With the outcome list empty or the snapshot absent, the function returns with the page
  state as it was; once past the guard, the flag is set whether or not the insert succeeds.
\<close>

lemma missing_data_changes_nothing:
  "simulationOutcomes inp = [] \<or> finalMetrics inp = None \<Longrightarrow> calculateMetrics inp st = st"
  by (auto simp: calculateMetrics_def computeSessionDVs_def)

lemma attempt_sets_flag:
  "simulationOutcomes inp \<noteq> [] \<Longrightarrow> finalMetrics inp \<noteq> None \<Longrightarrow>
   metricsCalculated (calculateMetrics inp st) = Some ''true''"
  by (auto simp: calculateMetrics_def computeSessionDVs_def Let_def)

text \<open>
  Claim C1 says that with the simulation-metrics snapshot absent no record is produced, no
  write reaches the sink, and the flag \<open>metricsCalculated\<close> is set after the attempt. On
  the example session without its snapshot and a fresh page, no record is produced and
  nothing is written, but the flag is still unset afterwards.
\<close>

theorem missing_snapshot_flag_not_set:
  "finalMetrics missingSnapshotSession = None \<and>
   metricsCalculated freshPage = None \<and>
   metricsCalculated (calculateMetrics missingSnapshotSession freshPage) = None \<and>
   metrics (calculateMetrics missingSnapshotSession freshPage) = None \<and>
   inserted (calculateMetrics missingSnapshotSession freshPage) = []"
  by (simp add: calculateMetrics_def computeSessionDVs_def missingSnapshotSession_def
      exampleSession_def freshPage_def)

section \<open>Alignment\<close>

text \<open>
  Claim C2: for every scenario outcome of a produced record, the computed alignment is true
  iff the lower-cased decision label is in the applicable reference list (scenario id 1: the
  baseline matched values; ids 2 and 3: the moral-values reorder list; any other id: none)
  and the event log holds no \<open>cvr_answered\<close> event of that scenario whose answer is true.
\<close>

theorem alignment_by_reference_set:
  assumes "computeSessionDVs inp = Some r" and "i < length (simulationOutcomes inp)"
  shows "finalAlignmentByScenario r ! i \<longleftrightarrow>
           (let outcome = simulationOutcomes inp ! i;
                sid = oc_scenarioId outcome;
                label = toLowerCase (orText (dc_label (oc_decision outcome)) [])
            in (if sid = 1 then label \<in> set (matchedStableValues inp)
                else if sid = 2 \<or> sid = 3 then label \<in> set (moralValuesReorderList inp)
                else False) \<and>
               filter (\<lambda>e. ev_event e = ''cvr_answered'' \<and> ev_scenarioId e = Some sid \<and>
                            ev_cvrAnswer e = Some True) (allEvents inp) = [])"
proof -
  have "finalAlignmentByScenario r ! i = aligned inp (simulationOutcomes inp ! i)"
    using assms by (simp add: produced_fields(3) scanOutcomes_fst)
  moreover have "(filter (\<lambda>e. ev_scenarioId e = Some sid \<and> ev_cvrAnswer e = Some True)
        (filter (\<lambda>e. ev_event e = ''cvr_answered'') es) = []) =
      (filter (\<lambda>e. ev_event e = ''cvr_answered'' \<and> ev_scenarioId e = Some sid \<and>
                   ev_cvrAnswer e = Some True) es = [])" for sid es
    by (simp add: conj_commute conj_left_commute)
  ultimately show ?thesis
    by (simp add: aligned_def valueExistsInList_def optionValue_def scenarioCvrYesAnswers_def
        cvrAnswerEvents_def Let_def)
qed

text \<open>Claim C2 on the example session: scenario 1 is aligned, scenario 2 (a CVR "yes") is not.\<close>

theorem alignment_by_reference_set_witness:
  "finalAlignmentByScenario exampleResult ! 0 \<and> \<not> finalAlignmentByScenario exampleResult ! 1"
proof -
  have len: "0 < length (simulationOutcomes exampleSession)"
    "1 < length (simulationOutcomes exampleSession)"
    by (simp_all add: exampleSession_def)
  have lc: "toLowerCase ''Safety'' = ''safety''" "toLowerCase ''Efficiency'' = ''efficiency''"
    "toLowerCase ''Fairness'' = ''fairness''" "toLowerCase ''fairness'' = ''fairness''"
    by code_simp+
  show ?thesis
    using alignment_by_reference_set [OF example_computed len(1)]
      alignment_by_reference_set [OF example_computed len(2)]
    by (simp add: exampleSession_def matchedStableValues_def moralValuesReorderList_def
        orText_def lc noEvent_def)
qed

section \<open>Decision times\<close>

text \<open>
  Claim C4: the 75-second fallback is session-wide. When no tracking record has both a start
  and an end time, \<open>decisionTimes\<close> holds one 75 per outcome; when at least one has, it
  holds the elapsed seconds \<open>(endTime - startTime) / 1000\<close> of the timed records only,
  with nothing for the others; \<open>avgDecisionTime\<close> is the arithmetic mean of that sequence.
\<close>

theorem decision_time_fallback_session_wide:
  assumes "computeSessionDVs inp = Some r"
  shows "decisionTimes r =
           (if filter hasTiming (scenarioHistory inp) = []
            then replicate (length (simulationOutcomes inp)) 75
            else map elapsedSeconds (filter hasTiming (scenarioHistory inp))) \<and>
         decisionTimes r \<noteq> [] \<and>
         avgDecisionTime r = sum_list (decisionTimes r) / real (length (decisionTimes r))"
proof -
  have ne: "simulationOutcomes inp \<noteq> []"
    using assms by (rule computeSessionDVs_Some)
  have dt: "decisionTimes r = computeDecisionTimes inp"
    using assms by (rule produced_fields(1))
  have nonempty: "computeDecisionTimes inp \<noteq> []"
    using ne by (simp add: computeDecisionTimes_eq)
  have "avgDecisionTime r = computeAvgDecisionTime (computeDecisionTimes inp)"
    using assms by (rule produced_fields(2))
  with nonempty have "avgDecisionTime r =
      sum_list (computeDecisionTimes inp) / real (length (computeDecisionTimes inp))"
    by (simp add: computeAvgDecisionTime_def reduceSum_sum_list)
  with dt nonempty show ?thesis
    by (simp add: computeDecisionTimes_eq)
qed

text \<open>Claim C4 on the example session: one timed scenario of two, and no 75 for the other.\<close>

theorem decision_time_fallback_session_wide_witness:
  "decisionTimes exampleResult = [elapsedSeconds (scenarioHistory exampleSession ! 0)] \<and>
   avgDecisionTime exampleResult = 25 / 2"
  using decision_time_fallback_session_wide [OF example_computed]
  by (simp add: exampleSession_def untracked_def hasTiming_def truthy_def exampleResult_def)

section \<open>The detail records follow the outcomes\<close>

lemma distinct_filter_eq_once:
  "distinct ks \<Longrightarrow> k \<in> set ks \<Longrightarrow> length (filter (\<lambda>j. j = k) ks) = 1"
  by (induction ks) (auto simp: filter_empty_conv)

text \<open>
  Claim C8: in every produced record, \<open>scenarioDetails\<close>, the outcome list and
  \<open>finalAlignmentByScenario\<close> have the same length, the detail records carry the
  outcomes' scenario ids in the outcomes' order, and (scenario ids being unique in the
  outcome list) every outcome's scenario has exactly one detail record.
\<close>

theorem details_follow_outcomes:
  assumes "computeSessionDVs inp = Some r"
  shows "length (scenarioDetails r) = length (simulationOutcomes inp) \<and>
         length (finalAlignmentByScenario r) = length (simulationOutcomes inp) \<and>
         map sd_scenarioId (scenarioDetails r) = map oc_scenarioId (simulationOutcomes inp) \<and>
         (distinct (map oc_scenarioId (simulationOutcomes inp)) \<longrightarrow>
            (\<forall>outcome \<in> set (simulationOutcomes inp).
               length (filter (\<lambda>d. sd_scenarioId d = oc_scenarioId outcome)
                 (scenarioDetails r)) = 1))"
proof -
  note len = details_length [OF assms] and ids = details_ids [OF assms]
  have once: "length (filter (\<lambda>d. sd_scenarioId d = oc_scenarioId outcome) (scenarioDetails r)) = 1"
    if d: "distinct (map oc_scenarioId (simulationOutcomes inp))"
      and o: "outcome \<in> set (simulationOutcomes inp)" for outcome
  proof -
    have "length (filter (\<lambda>d. sd_scenarioId d = oc_scenarioId outcome) (scenarioDetails r)) =
          length (filter (\<lambda>k. k = oc_scenarioId outcome) (map sd_scenarioId (scenarioDetails r)))"
      by (simp add: filter_map comp_def)
    also have "\<dots> = 1"
      unfolding ids using d o by (intro distinct_filter_eq_once) simp_all
    finally show ?thesis .
  qed
  have "length (finalAlignmentByScenario r) = length (simulationOutcomes inp)"
    using assms by (simp add: produced_fields(3) scanOutcomes_fst)
  with len ids once show ?thesis
    by blast
qed

text \<open>Claim C8 on the example session.\<close>

theorem details_follow_outcomes_witness:
  "length (scenarioDetails exampleResult) = 2 \<and>
   length (finalAlignmentByScenario exampleResult) = 2 \<and>
   map sd_scenarioId (scenarioDetails exampleResult) = [1, 2] \<and>
   length (filter (\<lambda>d. sd_scenarioId d = 2) (scenarioDetails exampleResult)) = 1"
  using details_follow_outcomes [OF example_computed]
  by (simp add: exampleSession_def)

section \<open>Tracked counters against recomputed ones\<close>

text \<open>
  Claim C3, as stated, fails: the tracked counters are copied into the map only under the
  guard on the two timestamps, so a tracking record without them is not consulted. In the
  example session scenario 2 has a tracking record with a switch count of 5 and no
  timestamps, and the detail record holds the recomputed value 1.
\<close>

theorem untimed_record_counters_ignored:
  "computeSessionDVs exampleSession = Some exampleResult \<and>
   tr_scenarioId (scenarioHistory exampleSession ! 1) =
     oc_scenarioId (simulationOutcomes exampleSession ! 1) \<and>
   tr_switchCount (scenarioHistory exampleSession ! 1) = Some 5 \<and>
   sd_switches (scenarioDetails exampleResult ! 1) = 1 \<and>
   sd_switches (scenarioDetails exampleResult ! 1) \<noteq> 5"
  by (simp add: example_computed) (simp add: exampleSession_def exampleResult_def untracked_def)

text \<open>
  Claim C3, amended: for every scenario in the outcome list for which a tracking record
  with both \<open>startTime\<close> and \<open>endTime\<close> exists (scenario ids being unique in the
  tracking history), each of \<open>switches\<close>, \<open>cvrVisited\<close>, \<open>cvrVisitCount\<close>,
  \<open>cvrYesAnswers\<close>, \<open>apaReordered\<close>, \<open>apaReorderCount\<close> of the detail record is
  the tracked value when that is truthy, and otherwise the value recomputed from the
  scenario's events.
\<close>

theorem tracked_counters_preferred:
  assumes "computeSessionDVs inp = Some r" and "i < length (simulationOutcomes inp)"
    and "distinct (map tr_scenarioId (scenarioHistory inp))"
    and "s \<in> set (scenarioHistory inp)"
    and "tr_scenarioId s = oc_scenarioId (simulationOutcomes inp ! i)"
    and "hasTiming s"
  shows "(let d = scenarioDetails r ! i; sid = oc_scenarioId (simulationOutcomes inp ! i)
          in sd_switches d = orCount (tr_switchCount s) (switchCount inp sid) \<and>
             sd_cvrVisited d = orFlag (tr_cvrVisited s) (length (scenarioCvrVisits inp sid) > 0) \<and>
             sd_cvrVisitCount d =
               orCount (tr_cvrVisitCount s) (int (length (scenarioCvrVisits inp sid))) \<and>
             sd_cvrYesAnswers d =
               orCount (tr_cvrYesAnswers s) (int (length (scenarioCvrYesAnswers inp sid))) \<and>
             sd_apaReordered d =
               orFlag (tr_apaReordered s) (length (scenarioApaEvents inp sid) > 0) \<and>
             sd_apaReorderCount d =
               orCount (tr_apaReorderCount s) (int (length (scenarioApaEvents inp sid))))"
proof -
  have "scenarioDetailsMap inp (oc_scenarioId (simulationOutcomes inp ! i)) = Some (trackedData s)"
    using scenarioDetailsMap_timed [OF assms(3,4,6)] assms(5) by simp
  then show ?thesis
    using details_nth [OF assms(1,2)] by (simp add: scenarioDetail_tracked Let_def)
qed

text \<open>The amended claim C3 on scenario 1 of the example session.\<close>

theorem tracked_counters_preferred_witness:
  "sd_switches (scenarioDetails exampleResult ! 0) = 2 \<and>
   sd_cvrVisited (scenarioDetails exampleResult ! 0) \<and>
   sd_cvrVisitCount (scenarioDetails exampleResult ! 0) = 1 \<and>
   sd_cvrYesAnswers (scenarioDetails exampleResult ! 0) = 0 \<and>
   \<not> sd_apaReordered (scenarioDetails exampleResult ! 0) \<and>
   sd_apaReorderCount (scenarioDetails exampleResult ! 0) = 0"
proof -
  let ?s = "(untracked 1)\<lparr>tr_startTime := Some 1000, tr_endTime := Some 13500,
                           tr_switchCount := Some 2\<rparr>"
  have i: "0 < length (simulationOutcomes exampleSession)"
    by (simp add: exampleSession_def)
  have d: "distinct (map tr_scenarioId (scenarioHistory exampleSession))"
    by (simp add: exampleSession_def untracked_def)
  have m: "?s \<in> set (scenarioHistory exampleSession)"
    by (simp add: exampleSession_def)
  have e: "tr_scenarioId ?s = oc_scenarioId (simulationOutcomes exampleSession ! 0)"
    by (simp add: exampleSession_def untracked_def)
  have t: "hasTiming ?s"
    by (simp add: hasTiming_def truthy_def untracked_def)
  have views: "scenarioCvrVisits exampleSession 1 =
        [noEvent\<lparr>ev_event := ''cvr_opened'', ev_scenarioId := Some 1\<rparr>]"
      "scenarioCvrYesAnswers exampleSession 1 = []"
      "scenarioApaEvents exampleSession 1 = []"
    by (simp_all add: scenarioCvrVisits_def scenarioCvrYesAnswers_def scenarioApaEvents_def
        cvrOpenEvents_def cvrAnswerEvents_def apaEvents_def exampleSession_def noEvent_def)
  have sid: "oc_scenarioId (simulationOutcomes exampleSession ! 0) = 1"
    by (simp add: exampleSession_def)
  show ?thesis
    using tracked_counters_preferred [OF example_computed i d m e t]
    by (simp add: Let_def sid views orCount_def orFlag_def untracked_def)
qed

section \<open>The length and order of the decision times\<close>

text \<open>
  Claim C5, as stated, fails: \<open>decisionTimes\<close> is filled from the tracking history, one
  entry per record with both timestamps, not from the outcome list. The example session
  has two outcomes and one decision time.
\<close>

theorem decision_times_shorter_than_outcomes:
  "computeSessionDVs exampleSession = Some exampleResult \<and>
   length (simulationOutcomes exampleSession) = 2 \<and>
   length (decisionTimes exampleResult) = 1"
  by (simp add: example_computed) (simp add: exampleSession_def exampleResult_def)

text \<open>
  Claim C5, amended: \<open>decisionTimes\<close> has exactly one entry per scenario of the outcome
  list, in outcome order, when no tracking record has both timestamps (every entry is 75)
  or when the tracking records with both timestamps carry, in history order, exactly the
  scenario ids of the outcome list (entry \<open>i\<close> is the elapsed seconds of the \<open>i\<close>-th
  such record).
\<close>

theorem decision_times_per_outcome:
  assumes "computeSessionDVs inp = Some r"
    and "filter hasTiming (scenarioHistory inp) = [] \<or>
         map tr_scenarioId (filter hasTiming (scenarioHistory inp)) =
           map oc_scenarioId (simulationOutcomes inp)"
  shows "length (decisionTimes r) = length (simulationOutcomes inp) \<and>
         (\<forall>i < length (simulationOutcomes inp).
            decisionTimes r ! i =
              (if filter hasTiming (scenarioHistory inp) = [] then 75
               else elapsedSeconds (filter hasTiming (scenarioHistory inp) ! i)))"
proof (cases "filter hasTiming (scenarioHistory inp) = []")
  case True
  then show ?thesis
    using assms(1) by (simp add: produced_fields(1) computeDecisionTimes_eq)
next
  case False
  with assms(2) have "length (filter hasTiming (scenarioHistory inp)) =
      length (simulationOutcomes inp)"
    by (metis length_map)
  with False show ?thesis
    using assms(1) by (simp add: produced_fields(1) computeDecisionTimes_eq)
qed

text \<open>The amended claim C5 on the session with the one timed scenario as its only outcome.\<close>

theorem decision_times_per_outcome_witness:
  "length (decisionTimes quietResult) = 1 \<and> decisionTimes quietResult ! 0 = 25 / 2"
proof -
  have f: "filter hasTiming (scenarioHistory quietSession) =
      [(untracked 1)\<lparr>tr_startTime := Some 1000, tr_endTime := Some 13500,
                      tr_switchCount := Some 2\<rparr>]"
    by (simp add: quietSession_def exampleSession_def hasTiming_def truthy_def untracked_def)
  have o: "map oc_scenarioId (simulationOutcomes quietSession) = [1]"
    "length (simulationOutcomes quietSession) = 1"
    by (simp_all add: quietSession_def exampleSession_def)
  have h: "filter hasTiming (scenarioHistory quietSession) = [] \<or>
         map tr_scenarioId (filter hasTiming (scenarioHistory quietSession)) =
           map oc_scenarioId (simulationOutcomes quietSession)"
    by (simp add: f o untracked_def)
  show ?thesis
    using decision_times_per_outcome [OF quiet_computed h]
    by (simp add: f o elapsedSeconds_def untracked_def)
qed

section \<open>The two counters\<close>

lemma find_filter: "find P (filter Q xs) = find (\<lambda>x. Q x \<and> P x) xs"
  by (induction xs) simp_all

lemma nullish_False: "nullish x False \<longleftrightarrow> x = Some True"
  by (auto simp: nullish_def split: option.splits)

lemma hadReordering_iff:
  "hadReordering inp sid \<longleftrightarrow>
     (\<exists>e flags.
        find (\<lambda>e. ev_scenarioId e = Some sid \<and> ev_event e = ''option_confirmed'') (allEvents inp)
          = Some e \<and>
        ev_flagsAtConfirmation e = Some flags \<and>
        (simulationMetricsReorderingFlag flags = Some True \<or>
         moralValuesReorderingFlag flags = Some True))"
  by (auto simp: hadReordering_def confirmationFlags_def find_filter nullish_False Let_def
      split: option.splits)

lemma realign_count:
  assumes "computeSessionDVs inp = Some r"
  shows "realignAfterCvrApaCount r =
     int (length (filter (\<lambda>outcome. hadReordering inp (oc_scenarioId outcome))
       (simulationOutcomes inp)))"
proof -
  have "realignAfterCvrApaCount r =
      int (length (filter (\<lambda>s. hadReordering inp (sd_scenarioId s)) (scenarioDetails r)))"
    using assms by (simp add: produced_fields(4,6) countAfterCvrApa_def fold_counterStep)
  also have "\<dots> = int (length (filter (hadReordering inp) (map sd_scenarioId (scenarioDetails r))))"
    by (simp add: filter_map comp_def)
  also have "\<dots> = int (length (filter (hadReordering inp)
      (map oc_scenarioId (simulationOutcomes inp))))"
    by (simp only: details_ids [OF assms])
  also have "\<dots> = int (length (filter (\<lambda>outcome. hadReordering inp (oc_scenarioId outcome))
      (simulationOutcomes inp)))"
    by (simp add: filter_map comp_def)
  finally show ?thesis .
qed

lemma misalign_count:
  assumes "computeSessionDVs inp = Some r"
  shows "misalignAfterCvrApaCount r =
     int (length (filter (\<lambda>b. \<not> b) (finalAlignmentByScenario r)))"
proof -
  have "misalignAfterCvrApaCount r =
      int (length (filter (\<lambda>s. \<not> sd_aligned s) (scenarioDetails r)))"
    using assms by (simp add: produced_fields(4,5) countAfterCvrApa_def fold_counterStep)
  also have "\<dots> = int (length (filter (\<lambda>b. \<not> b) (map sd_aligned (scenarioDetails r))))"
    by (simp add: filter_map comp_def)
  finally show ?thesis
    by (simp only: details_aligned [OF assms])
qed

text \<open>
  Claim C7: over the scenarios in outcome order, \<open>realignAfterCvrApaCount\<close> counts those
  whose first \<open>option_confirmed\<close> event exists, carries \<open>flagsAtConfirmation\<close> and has
  \<open>simulationMetricsReorderingFlag\<close> or \<open>moralValuesReorderingFlag\<close> true there;
  \<open>misalignAfterCvrApaCount\<close> counts, independently, those whose computed alignment is
  false. The counters are neither exclusive nor complementary: one scenario can be counted
  by both, and one by neither.
\<close>

theorem realign_and_misalign_counters:
  "(\<forall>inp r. computeSessionDVs inp = Some r \<longrightarrow>
      realignAfterCvrApaCount r =
        int (length (filter
          (\<lambda>outcome. \<exists>e flags.
             find (\<lambda>e. ev_scenarioId e = Some (oc_scenarioId outcome) \<and>
                        ev_event e = ''option_confirmed'') (allEvents inp) = Some e \<and>
             ev_flagsAtConfirmation e = Some flags \<and>
             (simulationMetricsReorderingFlag flags = Some True \<or>
              moralValuesReorderingFlag flags = Some True))
          (simulationOutcomes inp))) \<and>
      misalignAfterCvrApaCount r =
        int (length (filter (\<lambda>b. \<not> b) (finalAlignmentByScenario r)))) \<and>
   (\<exists>inp r. computeSessionDVs inp = Some r \<and> length (simulationOutcomes inp) = 1 \<and>
      realignAfterCvrApaCount r = 1 \<and> misalignAfterCvrApaCount r = 1) \<and>
   (\<exists>inp r. computeSessionDVs inp = Some r \<and> length (simulationOutcomes inp) = 1 \<and>
      realignAfterCvrApaCount r = 0 \<and> misalignAfterCvrApaCount r = 0)"
proof (intro conjI allI impI)
  fix inp r assume a: "computeSessionDVs inp = Some r"
  show "realignAfterCvrApaCount r =
        int (length (filter
          (\<lambda>outcome. \<exists>e flags.
             find (\<lambda>e. ev_scenarioId e = Some (oc_scenarioId outcome) \<and>
                        ev_event e = ''option_confirmed'') (allEvents inp) = Some e \<and>
             ev_flagsAtConfirmation e = Some flags \<and>
             (simulationMetricsReorderingFlag flags = Some True \<or>
              moralValuesReorderingFlag flags = Some True))
          (simulationOutcomes inp)))"
    using realign_count [OF a] by (simp only: hadReordering_iff)
  show "misalignAfterCvrApaCount r =
        int (length (filter (\<lambda>b. \<not> b) (finalAlignmentByScenario r)))"
    by (rule misalign_count [OF a])
next
  have "computeSessionDVs flaggedSession = Some flaggedResult \<and>
      length (simulationOutcomes flaggedSession) = 1 \<and>
      realignAfterCvrApaCount flaggedResult = 1 \<and> misalignAfterCvrApaCount flaggedResult = 1"
    by (simp add: flagged_computed) (simp add: flaggedSession_def flaggedResult_def)
  then show "\<exists>inp r. computeSessionDVs inp = Some r \<and> length (simulationOutcomes inp) = 1 \<and>
      realignAfterCvrApaCount r = 1 \<and> misalignAfterCvrApaCount r = 1"
    by blast
next
  have "computeSessionDVs quietSession = Some quietResult \<and>
      length (simulationOutcomes quietSession) = 1 \<and>
      realignAfterCvrApaCount quietResult = 0 \<and> misalignAfterCvrApaCount quietResult = 0"
    by (simp add: quiet_computed) (simp add: quietSession_def quietResult_def)
  then show "\<exists>inp r. computeSessionDVs inp = Some r \<and> length (simulationOutcomes inp) = 1 \<and>
      realignAfterCvrApaCount r = 0 \<and> misalignAfterCvrApaCount r = 0"
    by blast
qed

text \<open>Claim C7 on the example session: scenario 1 alone was confirmed after a reordering.\<close>

theorem realign_and_misalign_counters_witness:
  "realignAfterCvrApaCount exampleResult = 1 \<and>
   misalignAfterCvrApaCount exampleResult =
     int (length (filter (\<lambda>b. \<not> b) (finalAlignmentByScenario exampleResult)))"
proof -
  have h: "hadReordering exampleSession 1" "\<not> hadReordering exampleSession 2"
    by (simp_all add: hadReordering_def confirmationFlags_def exampleSession_def noEvent_def
        nullish_def)
  have o: "map oc_scenarioId (simulationOutcomes exampleSession) = [1, 2]"
    by (simp add: exampleSession_def)
  have "length (filter (\<lambda>outcome. hadReordering exampleSession (oc_scenarioId outcome))
      (simulationOutcomes exampleSession)) =
      length (filter (hadReordering exampleSession)
        (map oc_scenarioId (simulationOutcomes exampleSession)))"
    by (simp add: filter_map comp_def)
  also have "\<dots> = 1"
    by (simp add: o h)
  finally show ?thesis
    using realign_and_misalign_counters [THEN conjunct1, rule_format, OF example_computed,
        folded hadReordering_iff]
    by simp
qed

section \<open>The whole seconds of the detail records\<close>

lemma hasTiming_iff:
  "hasTiming s \<longleftrightarrow>
     (\<exists>e b. tr_endTime s = Some e \<and> tr_startTime s = Some b \<and> e \<noteq> 0 \<and> b \<noteq> 0)"
  by (auto simp: hasTiming_def truthy_def split: option.splits)

lemma elapsedSeconds_eq:
  "tr_endTime s = Some e \<Longrightarrow> tr_startTime s = Some b \<Longrightarrow> elapsedSeconds s = (e - b) / 1000"
  by (simp add: elapsedSeconds_def)

lemma Math_round_entryOrZero:
  "Math_round (entryOrZero ts i) = (if i < length ts then Math_round (ts ! i) else 0)"
  by (simp add: entryOrZero_def Math_round_zero)

lemma fold_historyStep_values:
  "snd (fold historyStep hs acc) k = Some td \<Longrightarrow>
   snd acc k = Some td \<or>
   (\<exists>s\<in>set hs. hasTiming s \<and> tr_scenarioId s = k \<and> td = trackedData s)"
proof (induction hs arbitrary: acc)
  case Nil
  then show ?case by simp
next
  case (Cons h hs)
  from Cons.prems have "snd (fold historyStep hs (historyStep h acc)) k = Some td"
    by simp
  from Cons.IH [OF this] show ?case
    by (auto simp: historyStep_def split: if_splits)
qed

lemma scenarioDetailsMap_Some:
  "scenarioDetailsMap inp k = Some td \<Longrightarrow>
   \<exists>s\<in>set (scenarioHistory inp). hasTiming s \<and> tr_scenarioId s = k \<and> td = trackedData s"
  unfolding scenarioDetailsMap_def scanHistory_def
  by (drule fold_historyStep_values) simp

lemma timeSeconds_integral:
  assumes "computeSessionDVs inp = Some r" and "i < length (simulationOutcomes inp)"
  shows "sd_timeSeconds (scenarioDetails r ! i) \<in> \<int>"
proof (cases "scenarioDetailsMap inp (oc_scenarioId (simulationOutcomes inp ! i))")
  case None
  then show ?thesis
    using details_nth [OF assms]
    by (simp add: scenarioDetail_def trackingData_def Let_def Math_round_integral)
next
  case (Some td)
  from scenarioDetailsMap_Some [OF this] obtain s where "td = trackedData s"
    by blast
  with Some show ?thesis
    using details_nth [OF assms]
    by (simp add: scenarioDetail_def trackingData_def trackedData_def Let_def Math_round_integral)
qed

lemma timeSeconds_timed:
  assumes "computeSessionDVs inp = Some r" and "i < length (simulationOutcomes inp)"
    and "distinct (map tr_scenarioId (scenarioHistory inp))"
    and "s \<in> set (scenarioHistory inp)"
    and "tr_scenarioId s = oc_scenarioId (simulationOutcomes inp ! i)"
    and "hasTiming s"
  shows "sd_timeSeconds (scenarioDetails r ! i) = Math_round (elapsedSeconds s)"
proof -
  have "scenarioDetailsMap inp (oc_scenarioId (simulationOutcomes inp ! i)) = Some (trackedData s)"
    using scenarioDetailsMap_timed [OF assms(3,4,6)] assms(5) by simp
  then show ?thesis
    using details_nth [OF assms(1,2)] by (simp add: scenarioDetail_tracked)
qed

lemma timeSeconds_untimed:
  assumes "computeSessionDVs inp = Some r" and "i < length (simulationOutcomes inp)"
    and "\<forall>s\<in>set (scenarioHistory inp).
           tr_scenarioId s = oc_scenarioId (simulationOutcomes inp ! i) \<longrightarrow> \<not> hasTiming s"
  shows "sd_timeSeconds (scenarioDetails r ! i) =
           (if i < length (decisionTimes r) then Math_round (decisionTimes r ! i) else 0)"
proof -
  have "scenarioDetailsMap inp (oc_scenarioId (simulationOutcomes inp ! i)) = None"
    using assms(3) by (intro scenarioDetailsMap_untimed) blast
  then show ?thesis
    using details_nth [OF assms(1,2)] produced_fields(1) [OF assms(1)]
    by (simp add: scenarioDetail_def trackingData_def Let_def Math_round_entryOrZero)
qed

lemma elapsed_in_decisionTimes:
  assumes "computeSessionDVs inp = Some r" and "s \<in> set (scenarioHistory inp)" and "hasTiming s"
  shows "elapsedSeconds s \<in> set (decisionTimes r)"
proof -
  have "s \<in> set (filter hasTiming (scenarioHistory inp))"
    using assms(2,3) by simp
  then have "filter hasTiming (scenarioHistory inp) \<noteq> []"
    and "elapsedSeconds s \<in> set (map elapsedSeconds (filter hasTiming (scenarioHistory inp)))"
    by (auto simp: filter_empty_conv)
  then show ?thesis
    using produced_fields(1) [OF assms(1)] by (simp add: computeDecisionTimes_eq)
qed

text \<open>
  Claim C10: in every detail record \<open>timeSeconds\<close> is a whole number. For a scenario
  whose tracking record has both \<open>startTime\<close> and \<open>endTime\<close> (scenario ids being
  unique in the tracking history) it is \<open>(endTime - startTime) / 1000\<close> rounded to the
  nearest whole second, while \<open>decisionTimes\<close> holds the unrounded value; for a scenario
  without such a record it is the entry of \<open>decisionTimes\<close> at the outcome's index,
  rounded, or 0 when there is no such entry.
\<close>

theorem time_seconds_rounded:
  assumes "computeSessionDVs inp = Some r" and "i < length (simulationOutcomes inp)"
  shows "sd_timeSeconds (scenarioDetails r ! i) \<in> \<int> \<and>
     (distinct (map tr_scenarioId (scenarioHistory inp)) \<longrightarrow>
        (\<forall>s \<in> set (scenarioHistory inp). \<forall>e b.
           tr_scenarioId s = oc_scenarioId (simulationOutcomes inp ! i) \<and>
           tr_endTime s = Some e \<and> tr_startTime s = Some b \<and> e \<noteq> 0 \<and> b \<noteq> 0 \<longrightarrow>
             sd_timeSeconds (scenarioDetails r ! i) = Math_round ((e - b) / 1000) \<and>
             \<bar>sd_timeSeconds (scenarioDetails r ! i) - (e - b) / 1000\<bar> \<le> 1 / 2 \<and>
             (e - b) / 1000 \<in> set (decisionTimes r))) \<and>
     ((\<forall>s \<in> set (scenarioHistory inp).
         tr_scenarioId s = oc_scenarioId (simulationOutcomes inp ! i) \<longrightarrow> \<not> hasTiming s) \<longrightarrow>
          sd_timeSeconds (scenarioDetails r ! i) =
            (if i < length (decisionTimes r) then Math_round (decisionTimes r ! i) else 0))"
proof (intro conjI ballI allI impI)
  show "sd_timeSeconds (scenarioDetails r ! i) \<in> \<int>"
    using assms by (rule timeSeconds_integral)
next
  fix s e b
  assume d: "distinct (map tr_scenarioId (scenarioHistory inp))"
    and s: "s \<in> set (scenarioHistory inp)"
    and h: "tr_scenarioId s = oc_scenarioId (simulationOutcomes inp ! i) \<and>
        tr_endTime s = Some e \<and> tr_startTime s = Some b \<and> e \<noteq> 0 \<and> b \<noteq> 0"
  then have t: "hasTiming s" and el: "elapsedSeconds s = (e - b) / 1000"
    by (auto simp: hasTiming_iff elapsedSeconds_eq)
  from h have sid: "tr_scenarioId s = oc_scenarioId (simulationOutcomes inp ! i)"
    by simp
  show "sd_timeSeconds (scenarioDetails r ! i) = Math_round ((e - b) / 1000)"
    using timeSeconds_timed [OF assms d s sid t] el by simp
  then show "\<bar>sd_timeSeconds (scenarioDetails r ! i) - (e - b) / 1000\<bar> \<le> 1 / 2"
    using Math_round_nearest [of "(e - b) / 1000"] by simp
  show "(e - b) / 1000 \<in> set (decisionTimes r)"
    using elapsed_in_decisionTimes [OF assms(1) s t] el by simp
next
  assume "\<forall>s \<in> set (scenarioHistory inp).
         tr_scenarioId s = oc_scenarioId (simulationOutcomes inp ! i) \<longrightarrow> \<not> hasTiming s"
  from timeSeconds_untimed [OF assms this]
  show "sd_timeSeconds (scenarioDetails r ! i) =
            (if i < length (decisionTimes r) then Math_round (decisionTimes r ! i) else 0)" .
qed

text \<open>Claim C10 on the example session: 12.5 seconds become 13, and scenario 2 has no entry.\<close>

theorem time_seconds_rounded_witness:
  "sd_timeSeconds (scenarioDetails exampleResult ! 0) = Math_round (25 / 2) \<and>
   25 / 2 \<in> set (decisionTimes exampleResult) \<and>
   sd_timeSeconds (scenarioDetails exampleResult ! 1) =
     (if 1 < length (decisionTimes exampleResult)
      then Math_round (decisionTimes exampleResult ! 1) else 0)"
proof -
  let ?s = "(untracked 1)\<lparr>tr_startTime := Some 1000, tr_endTime := Some 13500,
                           tr_switchCount := Some 2\<rparr>"
  have i: "0 < length (simulationOutcomes exampleSession)"
    "1 < length (simulationOutcomes exampleSession)"
    by (simp_all add: exampleSession_def)
  have d: "distinct (map tr_scenarioId (scenarioHistory exampleSession))"
    by (simp add: exampleSession_def untracked_def)
  have m: "?s \<in> set (scenarioHistory exampleSession)"
    by (simp add: exampleSession_def)
  have s: "tr_scenarioId ?s = oc_scenarioId (simulationOutcomes exampleSession ! 0) \<and>
      tr_endTime ?s = Some 13500 \<and> tr_startTime ?s = Some 1000 \<and>
      (13500::real) \<noteq> 0 \<and> (1000::real) \<noteq> 0"
    by (simp add: exampleSession_def untracked_def)
  have u: "\<forall>s \<in> set (scenarioHistory exampleSession).
      tr_scenarioId s = oc_scenarioId (simulationOutcomes exampleSession ! 1) \<longrightarrow> \<not> hasTiming s"
    by (simp add: exampleSession_def untracked_def hasTiming_def truthy_def)
  from time_seconds_rounded [OF example_computed i(1), THEN conjunct2, THEN conjunct1,
      rule_format, OF d m s]
  have first: "sd_timeSeconds (scenarioDetails exampleResult ! 0) = Math_round (25 / 2) \<and>
      25 / 2 \<in> set (decisionTimes exampleResult)"
    by simp
  from time_seconds_rounded [OF example_computed i(2), THEN conjunct2, THEN conjunct2,
      THEN mp, OF u]
  show ?thesis
    using first by simp
qed

end
